theory Spec2Isabelle
  imports Complex_Main "HOL-Library.Word"
begin

section \<open>Python values\<close>

text \<open>
  A Python \<open>str\<close> is a sequence of Unicode code points, and \<open>len\<close>, slicing and
  \<open>strip\<close> count code points. A string is therefore a list of code points
  (natural numbers); \<open>str\<close> turns an ASCII literal into one. \<open>bytes\<close> are lists
  of 8-bit words.
\<close>

type_synonym pystr = "nat list"

type_synonym pybytes = "8 word list"

definition str :: "string \<Rightarrow> pystr" where
  "str s = map of_char s"

text \<open>
  \<open>str.isspace\<close> on one code point: the characters of bidirectional class WS, B or S
  and of category Zs. This table is complete for Unicode.
\<close>

definition py_isspace :: "nat \<Rightarrow> bool" where
  "py_isspace c =
     ((9 \<le> c \<and> c \<le> 13) \<or> (28 \<le> c \<and> c \<le> 32) \<or> c = 133 \<or> c = 160 \<or> c = 5760
      \<or> (8192 \<le> c \<and> c \<le> 8202) \<or> c = 8232 \<or> c = 8233 \<or> c = 8239 \<or> c = 8287
      \<or> c = 12288)"

definition py_strip :: "pystr \<Rightarrow> pystr" where
  "py_strip s = rev (dropWhile py_isspace (rev (dropWhile py_isspace s)))"

text \<open>
  The slice \<open>xs[start:end]\<close> for integer bounds: a negative bound counts from the
  end, and both bounds are clamped to the sequence.
\<close>

definition py_clamp :: "nat \<Rightarrow> int \<Rightarrow> nat" where
  "py_clamp n i = (if i < 0 then nat (max (i + int n) 0) else min (nat i) n)"

definition py_slice :: "'a list \<Rightarrow> int \<Rightarrow> int \<Rightarrow> 'a list" where
  "py_slice xs start stop =
     (let lo = py_clamp (length xs) start; hi = py_clamp (length xs) stop
      in take (hi - lo) (drop lo xs))"

text \<open>The slice \<open>xs[:stop]\<close>.\<close>

definition py_prefix :: "'a list \<Rightarrow> int \<Rightarrow> 'a list" where
  "py_prefix xs stop = take (py_clamp (length xs) stop) xs"

text \<open>\<open>s.endswith(suffix)\<close> and \<open>sep.join(parts)\<close>.\<close>

definition endswith :: "pystr \<Rightarrow> pystr \<Rightarrow> bool" where
  "endswith s suffix = (length suffix \<le> length s \<and> drop (length s - length suffix) s = suffix)"

fun py_join :: "pystr \<Rightarrow> pystr list \<Rightarrow> pystr" where
  "py_join sep [] = []"
| "py_join sep [x] = x"
| "py_join sep (x # y # ys) = x @ sep @ py_join sep (y # ys)"

section \<open>The chunker\<close>

text \<open>
  \<open>chunk_text(text, chunk_size=1000, overlap=200)\<close>. The \<open>while\<close> loop runs as long
  as \<open>start < len(text)\<close>; with \<open>overlap \<ge> chunk_size\<close> the cursor does not move
  forward and the loop never ends, so the loop is a partial function whose value
  \<open>None\<close> is "does not return".
\<close>

partial_function (option) chunk_loop ::
  "pystr \<Rightarrow> int \<Rightarrow> int \<Rightarrow> int \<Rightarrow> pystr list \<Rightarrow> pystr list option" where
  "chunk_loop txt chunk_size overlap start chunks =
     (if start < int (length txt) then
        (let stop = start + chunk_size;
             chunk = py_slice txt start stop;
             chunks' = (if py_strip chunk \<noteq> [] then chunks @ [py_strip chunk] else chunks)
         in chunk_loop txt chunk_size overlap (stop - overlap) chunks')
      else Some chunks)"

declare chunk_loop.simps [code]

definition chunk_text :: "pystr \<Rightarrow> int \<Rightarrow> int \<Rightarrow> pystr list option" where
  "chunk_text txt chunk_size overlap =
     (if txt = [] then Some [] else chunk_loop txt chunk_size overlap 0 [])"

text \<open>
  The windows a run of the loop visits, written in closed form: window \<open>k\<close> starts at
  \<open>k * (chunk_size - overlap)\<close>, and there are as many windows as starts below
  \<open>len(text)\<close>.
\<close>

definition window_start :: "int \<Rightarrow> int \<Rightarrow> nat \<Rightarrow> int" where
  "window_start chunk_size overlap k = int k * (chunk_size - overlap)"

definition window :: "pystr \<Rightarrow> int \<Rightarrow> int \<Rightarrow> nat \<Rightarrow> pystr" where
  "window txt chunk_size overlap k =
     py_slice txt (window_start chunk_size overlap k)
       (window_start chunk_size overlap k + chunk_size)"

definition window_count :: "pystr \<Rightarrow> int \<Rightarrow> int \<Rightarrow> nat" where
  "window_count txt chunk_size overlap =
     nat ((int (length txt) + (chunk_size - overlap) - 1) div (chunk_size - overlap))"

definition emitted :: "pystr list \<Rightarrow> pystr list" where
  "emitted ws = filter (\<lambda>c. c \<noteq> []) (map py_strip ws)"

section \<open>The keyword extractor\<close>

text \<open>
  \<open>get_text_keywords\<close> calls \<open>text.lower()\<close> and the regular expression
  \<open>\b[a-zA-Z]{3,}\b\<close>, whose \<open>\b\<close> consults \<open>str.isalnum\<close>. On ASCII both are
  written out below. Beyond ASCII they read the Unicode character database (and
  \<open>lower\<close> is context sensitive there), which is not reproduced: that part of the
  Python library is the parameter \<open>pylib\<close>, and every theorem holds for each value of
  it. \<open>round3\<close> stands for \<open>round(x, 3)\<close> on floats. Scores themselves are exact
  rationals here, where the source divides two floats.
\<close>

record pylib =
  uc_lower :: "pystr \<Rightarrow> pystr"
  uc_alnum :: "nat \<Rightarrow> bool"
  round3 :: "rat \<Rightarrow> rat"

definition ascii_upper :: "nat \<Rightarrow> bool" where
  "ascii_upper c = (65 \<le> c \<and> c \<le> 90)"

definition ascii_letter :: "nat \<Rightarrow> bool" where
  "ascii_letter c = ((65 \<le> c \<and> c \<le> 90) \<or> (97 \<le> c \<and> c \<le> 122))"

definition ascii_alnum :: "nat \<Rightarrow> bool" where
  "ascii_alnum c = (ascii_letter c \<or> (48 \<le> c \<and> c \<le> 57))"

definition ascii_lower :: "nat \<Rightarrow> nat" where
  "ascii_lower c = (if ascii_upper c then c + 32 else c)"

definition py_lower :: "pylib \<Rightarrow> pystr \<Rightarrow> pystr" where
  "py_lower L s = (if list_all (\<lambda>c. c < 128) s then map ascii_lower s else uc_lower L s)"

definition py_isalnum :: "pylib \<Rightarrow> nat \<Rightarrow> bool" where
  "py_isalnum L c = (if c < 128 then ascii_alnum c else uc_alnum L c)"

text \<open>
  A library value for the examples. Their texts are ASCII, where the parameter is not
  consulted.
\<close>

definition ascii_lib :: pylib where
  "ascii_lib = \<lparr>uc_lower = (\<lambda>s. s), uc_alnum = (\<lambda>c. False), round3 = (\<lambda>x. x)\<rparr>"

text \<open>\<open>\w\<close>: an alphanumeric character or the underscore.\<close>

definition is_word :: "pylib \<Rightarrow> nat \<Rightarrow> bool" where
  "is_word L c = (c = 95 \<or> py_isalnum L c)"

text \<open>
  \<open>\b\<close> between the character before the position and the one after it (\<open>None\<close> at
  either end of the string): exactly one of the two is a word character.
\<close>

definition word_at :: "pylib \<Rightarrow> nat option \<Rightarrow> bool" where
  "word_at L c = (case c of None \<Rightarrow> False | Some x \<Rightarrow> is_word L x)"

definition boundary :: "pylib \<Rightarrow> nat option \<Rightarrow> nat option \<Rightarrow> bool" where
  "boundary L prev nxt = (word_at L prev \<noteq> word_at L nxt)"

definition next_char :: "pystr \<Rightarrow> nat option" where
  "next_char s = (case s of [] \<Rightarrow> None | c # _ \<Rightarrow> Some c)"

text \<open>
  One match attempt of \<open>\b[a-zA-Z]{3,}\b\<close> at the head of \<open>s\<close>, the character before
  it being \<open>prev\<close>: the leading \<open>\b\<close>, then the greedy repetition, which takes the
  whole run of letters and backtracks one letter at a time down to three until the
  closing \<open>\b\<close> holds. The result is the length of the match.
\<close>

definition match_here :: "pylib \<Rightarrow> nat option \<Rightarrow> pystr \<Rightarrow> nat option" where
  "match_here L prev s =
     (if boundary L prev (next_char s) then
        find (\<lambda>k. boundary L (Some (s ! (k - 1))) (next_char (drop k s)))
          (rev [3..<Suc (length (takeWhile ascii_letter s))])
      else None)"

text \<open>
  \<open>re.findall\<close>: scan from the left; after a match continue behind it, otherwise move
  on by one character.
\<close>

function findall_from :: "pylib \<Rightarrow> nat option \<Rightarrow> pystr \<Rightarrow> pystr list" where
  "findall_from L prev s =
     (case match_here L prev s of
        Some k \<Rightarrow> take k s # findall_from L (Some (s ! (k - 1))) (drop k s)
      | None \<Rightarrow> (case s of [] \<Rightarrow> [] | c # cs \<Rightarrow> findall_from L (Some c) cs))"
  by pat_completeness auto
termination
proof (relation "measure (\<lambda>(L, prev, s). length s)")
  show "wf (measure (\<lambda>(L, prev, s). length s))"
    by simp
next
  fix L :: pylib and prev :: "nat option" and s :: pystr and k :: nat
  assume m: "match_here L prev s = Some k"
  define ks where "ks = rev [3..<Suc (length (takeWhile ascii_letter s))]"
  from m have "find (\<lambda>k. boundary L (Some (s ! (k - 1))) (next_char (drop k s))) ks = Some k"
    unfolding match_here_def ks_def by (simp split: if_splits)
  then obtain i where "i < length ks" and "ks ! i = k"
    unfolding find_Some_iff by blast
  then have "k \<in> set ks"
    using nth_mem by blast
  then have "3 \<le> k" and "k \<le> length (takeWhile ascii_letter s)"
    unfolding ks_def by auto
  moreover have "length (takeWhile ascii_letter s) \<le> length s"
    by (rule length_takeWhile_le)
  ultimately show "((L, Some (s ! (k - 1)), drop k s), (L, prev, s))
      \<in> measure (\<lambda>(L, prev, s). length s)"
    by simp
next
  fix L :: pylib and prev :: "nat option" and s :: pystr and c :: nat and cs :: pystr
  assume "s = c # cs"
  then show "((L, Some c, cs), (L, prev, s)) \<in> measure (\<lambda>(L, prev, s). length s)"
    by simp
qed

declare findall_from.simps [simp del]

definition stop_words :: "pystr list" where
  "stop_words = map str
     [''the'', ''and'', ''for'', ''are'', ''but'', ''not'', ''you'', ''all'', ''can'', ''had'',
      ''her'', ''was'', ''one'', ''our'', ''out'', ''has'', ''have'', ''been'', ''from'',
      ''they'', ''were'', ''been'', ''have'', ''many'', ''some'', ''them'', ''this'', ''that'',
      ''with'', ''will'', ''would'', ''there'', ''their'', ''what'', ''which'', ''when'',
      ''where'', ''while'', ''into'', ''more'', ''other'', ''could'', ''should'']"

definition get_text_keywords :: "pylib \<Rightarrow> pystr \<Rightarrow> pystr list" where
  "get_text_keywords L txt =
     (let words = findall_from L None (py_lower L txt)
      in filter (\<lambda>w. w \<notin> set stop_words) words)"

text \<open>
  The tokens in the words of the tokenization rule: the maximal runs of word characters
  of a string, in order, and among them those made of at least three ASCII letters.
\<close>

fun word_runs :: "pylib \<Rightarrow> pystr \<Rightarrow> pystr list" where
  "word_runs L [] = []"
| "word_runs L (c # cs) =
     (if is_word L c then
        (case word_runs L cs of
           [] \<Rightarrow> [[c]]
         | r # rs \<Rightarrow> (if cs \<noteq> [] \<and> is_word L (hd cs) then (c # r) # rs else [c] # r # rs))
      else word_runs L cs)"

definition letter_word :: "pystr \<Rightarrow> bool" where
  "letter_word w = (3 \<le> length w \<and> list_all ascii_letter w)"

text \<open>
  The maximal runs of ASCII letters, as the specification words the rule: here a run
  ends at every character that is not an ASCII letter.
\<close>

fun letter_runs :: "pystr \<Rightarrow> pystr list" where
  "letter_runs [] = []"
| "letter_runs (c # cs) =
     (if ascii_letter c then
        (case letter_runs cs of
           [] \<Rightarrow> [[c]]
         | r # rs \<Rightarrow> (if cs \<noteq> [] \<and> ascii_letter (hd cs) then (c # r) # rs else [c] # r # rs))
      else letter_runs cs)"

definition keywords_spec :: "pylib \<Rightarrow> pystr \<Rightarrow> pystr list" where
  "keywords_spec L txt =
     filter (\<lambda>w. w \<notin> set stop_words)
       (map (py_lower L) (filter (\<lambda>w. 3 \<le> length w) (letter_runs txt)))"

section \<open>The similarity scorer\<close>

definition calculate_text_similarity :: "pylib \<Rightarrow> pystr \<Rightarrow> pystr \<Rightarrow> rat" where
  "calculate_text_similarity L text1 text2 =
     (let words1 = set (get_text_keywords L text1);
          words2 = set (get_text_keywords L text2)
      in if words1 = {} \<or> words2 = {} then 0
         else (let intersection = words1 \<inter> words2;
                   union = words1 \<union> words2
               in if union \<noteq> {} then of_nat (card intersection) / of_nat (card union) else 0))"

section \<open>The extractor\<close>

text \<open>
  \<open>bytes.decode('utf-8', errors=...)\<close> on the values of the bytes. A well-formed
  sequence yields its code point. At an ill-formed sequence the error handler runs once
  for the longest prefix that could still start a character, and decoding resumes at the
  byte after that prefix; at the end of the input the handler runs once for a truncated
  sequence. \<open>Ignore\<close> yields nothing for the error, \<open>Replace\<close> yields U+FFFD.
\<close>

datatype errors = Ignore | Replace

definition on_error :: "errors \<Rightarrow> pystr" where
  "on_error e = (case e of Ignore \<Rightarrow> [] | Replace \<Rightarrow> [65533])"

definition continuation :: "nat \<Rightarrow> bool" where
  "continuation c = (128 \<le> c \<and> c \<le> 191)"

text \<open>
  The second byte after a lead byte: narrower than a continuation byte after E0 and F0
  (overlong forms), ED (surrogates) and F4 (beyond U+10FFFF).
\<close>

definition second_ok :: "nat \<Rightarrow> nat \<Rightarrow> bool" where
  "second_ok b c =
     (if b = 224 then 160 \<le> c \<and> c \<le> 191
      else if b = 237 then 128 \<le> c \<and> c \<le> 159
      else if b = 240 then 144 \<le> c \<and> c \<le> 191
      else if b = 244 then 128 \<le> c \<and> c \<le> 143
      else continuation c)"

text \<open>
  One step at the head of a non-empty input: the code point read, or \<open>None\<close> for an
  error, and the number of bytes the step covers.
\<close>

definition cont_at :: "nat list \<Rightarrow> nat \<Rightarrow> bool" where
  "cont_at bs i = (i < length bs \<and> continuation (bs ! i))"

definition decode_step :: "nat \<Rightarrow> nat list \<Rightarrow> nat option \<times> nat" where
  "decode_step b bs =
     (if b < 128 then (Some b, 1)
      else if 194 \<le> b \<and> b \<le> 223 then
        (if cont_at bs 0 then (Some ((b - 192) * 64 + (bs ! 0 - 128)), 2) else (None, 1))
      else if 224 \<le> b \<and> b \<le> 239 then
        (if \<not> (0 < length bs \<and> second_ok b (bs ! 0)) then (None, 1)
         else if cont_at bs 1 then
           (Some ((b - 224) * 4096 + (bs ! 0 - 128) * 64 + (bs ! 1 - 128)), 3)
         else (None, 2))
      else if 240 \<le> b \<and> b \<le> 244 then
        (if \<not> (0 < length bs \<and> second_ok b (bs ! 0)) then (None, 1)
         else if \<not> cont_at bs 1 then (None, 2)
         else if cont_at bs 2 then
           (Some ((b - 240) * 262144 + (bs ! 0 - 128) * 4096 + (bs ! 1 - 128) * 64
                    + (bs ! 2 - 128)), 4)
         else (None, 3))
      else (None, 1))"

function utf8_decode :: "errors \<Rightarrow> nat list \<Rightarrow> pystr" where
  "utf8_decode e [] = []"
| "utf8_decode e (b # bs) =
     (case fst (decode_step b bs) of Some cp \<Rightarrow> [cp] | None \<Rightarrow> on_error e)
       @ utf8_decode e (drop (snd (decode_step b bs) - 1) bs)"
  by pat_completeness auto
termination
  by (relation "measure (\<lambda>(e, bs). length bs)") auto

definition decode :: "pybytes \<Rightarrow> errors \<Rightarrow> pystr" where
  "decode file_content e = utf8_decode e (map unat file_content)"

text \<open>
  The parsers of the structured formats (PyPDF2, python-docx, openpyxl, python-pptx) are
  outside the repository. Each is a parameter that gives what the loops of
  \<open>extract_text_from_file\<close> read from it, or \<open>None\<close> when it raises: the text of each
  page; the text of each paragraph; for each sheet its rows and for each row its cells
  (\<open>None\<close> for an empty cell, otherwise \<open>str(cell)\<close>); for each slide its shapes
  (\<open>None\<close> for a shape without a \<open>text\<close> attribute).
\<close>

record parsers =
  pdf_pages :: "pybytes \<Rightarrow> pystr list option"
  docx_paragraphs :: "pybytes \<Rightarrow> pystr list option"
  xlsx_sheets :: "pybytes \<Rightarrow> pystr option list list list option"
  pptx_slides :: "pybytes \<Rightarrow> pystr option list list option"

text \<open>A value for the examples: parsers that reject every input.\<close>

definition no_parsers :: parsers where
  "no_parsers = \<lparr>pdf_pages = (\<lambda>b. None), docx_paragraphs = (\<lambda>b. None),
                  xlsx_sheets = (\<lambda>b. None), pptx_slides = (\<lambda>b. None)\<rparr>"

definition pdf_mime :: pystr where
  "pdf_mime = str ''application/pdf''"

definition docx_mime :: pystr where
  "docx_mime = str ''application/vnd.openxmlformats-officedocument.wordprocessingml.document''"

definition xlsx_mime :: pystr where
  "xlsx_mime = str ''application/vnd.openxmlformats-officedocument.spreadsheetml.sheet''"

definition pptx_mime :: pystr where
  "pptx_mime = str ''application/vnd.openxmlformats-officedocument.presentationml.presentation''"

definition plain_mime :: pystr where
  "plain_mime = str ''text/plain''"

definition row_text :: "pystr option list \<Rightarrow> pystr" where
  "row_text row = py_join [32] (List.map_filter (\<lambda>cell. cell) row)"

definition extract_text_from_file :: "parsers \<Rightarrow> pybytes \<Rightarrow> pystr \<Rightarrow> pystr \<Rightarrow> pystr" where
  "extract_text_from_file P file_content content_type filename =
     py_strip
       (if content_type = pdf_mime \<or> endswith filename (str ''.pdf'') then
          (case pdf_pages P file_content of
             None \<Rightarrow> []
           | Some pages \<Rightarrow>
               concat (map (\<lambda>page_text. if page_text \<noteq> [] then page_text @ [10] else []) pages))
        else if content_type = docx_mime \<or> endswith filename (str ''.docx'') then
          (case docx_paragraphs P file_content of
             None \<Rightarrow> []
           | Some paragraphs \<Rightarrow> concat (map (\<lambda>para. para @ [10]) paragraphs))
        else if content_type = xlsx_mime \<or> endswith filename (str ''.xlsx'') then
          (case xlsx_sheets P file_content of
             None \<Rightarrow> []
           | Some sheets \<Rightarrow>
               concat (map (\<lambda>row. if py_strip (row_text row) \<noteq> [] then row_text row @ [10] else [])
                         (concat sheets)))
        else if content_type = pptx_mime \<or> endswith filename (str ''.pptx'') then
          (case pptx_slides P file_content of
             None \<Rightarrow> []
           | Some slides \<Rightarrow>
               concat (map (\<lambda>shape. case shape of None \<Rightarrow> [] | Some t \<Rightarrow> t @ [10])
                         (concat slides)))
        else if content_type = plain_mime \<or> endswith filename (str ''.txt'') then
          decode file_content Ignore
        else decode file_content Ignore)"

section \<open>The document and chunk store\<close>

text \<open>
  The two MongoDB collections the engine reads and writes, each in insertion order.
  The fields that hold a fresh uuid of their own or the clock (\<open>created_at\<close>,
  \<open>uploaded_at\<close>, the chunk's \<open>id\<close>) are left out: nothing reads them. The
  collections that only log (\<open>audit_logs\<close>, \<open>search_queries\<close>, \<open>chat_history\<close>) are not
  part of the state; the write to \<open>audit_logs\<close> inside the \<open>try\<close> block of
  \<open>upload_document\<close> is kept as a point where the store can raise.
\<close>

datatype status = Pending | Processing | Indexed | Failed

record document =
  d_id :: pystr
  d_filename :: pystr
  d_content_type :: pystr
  d_size :: nat
  d_status :: status
  d_uploaded_by :: pystr
  d_chunk_count :: nat
  d_content :: pybytes

record chunk =
  c_document_id :: pystr
  c_chunk_index :: nat
  c_text :: pystr
  c_keywords :: "pystr list"

record store =
  documents :: "document list"
  document_chunks :: "chunk list"

record user =
  u_id :: pystr
  u_email :: pystr
  u_role :: pystr

text \<open>\<open>find_one({"id": doc_id})\<close>: the first document with the id.\<close>

definition find_one :: "document list \<Rightarrow> pystr \<Rightarrow> document option" where
  "find_one docs doc_id = find (\<lambda>d. d_id d = doc_id) docs"

text \<open>\<open>update_one\<close> changes the first match, \<open>delete_one\<close> removes it.\<close>

fun update_one :: "pystr \<Rightarrow> (document \<Rightarrow> document) \<Rightarrow> document list \<Rightarrow> document list" where
  "update_one doc_id f [] = []"
| "update_one doc_id f (d # ds) =
     (if d_id d = doc_id then f d # ds else d # update_one doc_id f ds)"

fun delete_one :: "pystr \<Rightarrow> document list \<Rightarrow> document list" where
  "delete_one doc_id [] = []"
| "delete_one doc_id (d # ds) = (if d_id d = doc_id then ds else d # delete_one doc_id ds)"

definition delete_many :: "pystr \<Rightarrow> chunk list \<Rightarrow> chunk list" where
  "delete_many doc_id cs = filter (\<lambda>c. c_document_id c \<noteq> doc_id) cs"

text \<open>The chunks stored for a document.\<close>

definition chunks_of :: "store \<Rightarrow> pystr \<Rightarrow> chunk list" where
  "chunks_of s doc_id = filter (\<lambda>c. c_document_id c = doc_id) (document_chunks s)"

datatype 'a http = Response 'a | HTTPException nat

section \<open>Ingestion\<close>

text \<open>
  \<open>upload_document\<close> catches what its \<open>try\<close> block raises, and two claims are about
  that handler, so here the store can fail: \<open>faults\<close> is the schedule of the store
  writes still to come (\<open>True\<close>: this write raises and changes nothing; an exhausted
  schedule: every further write succeeds). The uuid drawn for the document is the
  parameter \<open>doc_id\<close>.
\<close>

record world =
  db :: store
  faults :: "bool list"

definition db_write :: "(store \<Rightarrow> store) \<Rightarrow> world \<Rightarrow> bool \<times> world" where
  "db_write f w =
     (case faults w of
        [] \<Rightarrow> (True, w\<lparr>db := f (db w)\<rparr>)
      | fails # rest \<Rightarrow>
          if fails then (False, w\<lparr>faults := rest\<rparr>)
          else (True, w\<lparr>db := f (db w), faults := rest\<rparr>))"

definition insert_document :: "document \<Rightarrow> store \<Rightarrow> store" where
  "insert_document d s = s\<lparr>documents := documents s @ [d]\<rparr>"

definition insert_chunk :: "chunk \<Rightarrow> store \<Rightarrow> store" where
  "insert_chunk c s = s\<lparr>document_chunks := document_chunks s @ [c]\<rparr>"

definition update_document :: "pystr \<Rightarrow> (document \<Rightarrow> document) \<Rightarrow> store \<Rightarrow> store" where
  "update_document doc_id f s = s\<lparr>documents := update_one doc_id f (documents s)\<rparr>"

record upload_file =
  f_filename :: pystr
  f_content_type :: pystr
  f_content :: pybytes

record document_response =
  r_id :: pystr
  r_filename :: pystr
  r_content_type :: pystr
  r_size :: nat
  r_status :: status
  r_uploaded_by :: pystr
  r_chunk_count :: nat

definition allowed_types :: "pystr list" where
  "allowed_types = [pdf_mime, docx_mime, xlsx_mime, pptx_mime, plain_mime]"

definition allowed_extensions :: "pystr list" where
  "allowed_extensions = map str [''.pdf'', ''.docx'', ''.xlsx'', ''.pptx'', ''.txt'']"

text \<open>\<open>'.' + filename.split('.')[-1].lower() if '.' in filename else ''\<close>\<close>

definition file_ext :: "pylib \<Rightarrow> pystr \<Rightarrow> pystr" where
  "file_ext L filename =
     (if 46 \<in> set filename
      then 46 # py_lower L (rev (takeWhile (\<lambda>c. c \<noteq> 46) (rev filename)))
      else [])"

text \<open>The loop that stores the chunks: it stops at the first write that raises.\<close>

fun store_chunks :: "pylib \<Rightarrow> pystr \<Rightarrow> nat \<Rightarrow> pystr list \<Rightarrow> world \<Rightarrow> bool \<times> world" where
  "store_chunks L doc_id i [] w = (True, w)"
| "store_chunks L doc_id i (chunk # chunks) w =
     (let (ok, w') =
            db_write (insert_chunk \<lparr>c_document_id = doc_id, c_chunk_index = i, c_text = chunk,
                                     c_keywords = get_text_keywords L chunk\<rparr>) w
      in if ok then store_chunks L doc_id (Suc i) chunks w' else (False, w'))"

text \<open>
  The \<open>except\<close> handler: it sets the status alone and answers 500 (and when its own
  write raises, the framework answers 500 as well).
\<close>

definition mark_failed :: "pystr \<Rightarrow> world \<Rightarrow> document_response http \<times> world" where
  "mark_failed doc_id w =
     (let (ok, w') = db_write (update_document doc_id (\<lambda>d. d\<lparr>d_status := Failed\<rparr>)) w
      in (HTTPException 500, w'))"

text \<open>The \<open>try\<close> block; \<open>None\<close> when \<open>chunk_text\<close> does not return.\<close>

definition process_document ::
  "pylib \<Rightarrow> parsers \<Rightarrow> upload_file \<Rightarrow> user \<Rightarrow> pystr \<Rightarrow> world
     \<Rightarrow> (document_response http \<times> world) option" where
  "process_document L P file usr doc_id w =
     (let extracted = extract_text_from_file P (f_content file) (f_content_type file)
                        (f_filename file)
      in case chunk_text extracted 1000 200 of
           None \<Rightarrow> None
         | Some chunks \<Rightarrow>
             Some
               (let (stored, w1) = store_chunks L doc_id 0 chunks w
                in if \<not> stored then mark_failed doc_id w1
                   else
                     (let (updated, w2) =
                            db_write (update_document doc_id
                                        (\<lambda>d. d\<lparr>d_status := Indexed,
                                                d_chunk_count := length chunks\<rparr>)) w1
                      in if \<not> updated then mark_failed doc_id w2
                         else
                           (let (logged, w3) = db_write (\<lambda>s. s) w2
                            in if \<not> logged then mark_failed doc_id w3
                               else (Response
                                       \<lparr>r_id = doc_id, r_filename = f_filename file,
                                        r_content_type = f_content_type file,
                                        r_size = length (f_content file), r_status = Indexed,
                                        r_uploaded_by = u_id usr,
                                        r_chunk_count = length chunks\<rparr>, w3)))))"

definition new_document :: "upload_file \<Rightarrow> user \<Rightarrow> pystr \<Rightarrow> document" where
  "new_document file usr doc_id =
     \<lparr>d_id = doc_id, d_filename = f_filename file, d_content_type = f_content_type file,
      d_size = length (f_content file), d_status = Processing, d_uploaded_by = u_id usr,
      d_chunk_count = 0, d_content = f_content file\<rparr>"

definition upload_document ::
  "pylib \<Rightarrow> parsers \<Rightarrow> upload_file \<Rightarrow> user \<Rightarrow> pystr \<Rightarrow> world
     \<Rightarrow> (document_response http \<times> world) option" where
  "upload_document L P file usr doc_id w =
     (if f_content_type file \<notin> set allowed_types
          \<and> file_ext L (f_filename file) \<notin> set allowed_extensions
      then Some (HTTPException 400, w)
      else
        (let (inserted, w0) = db_write (insert_document (new_document file usr doc_id)) w
         in if \<not> inserted then Some (HTTPException 500, w0)
            else process_document L P file usr doc_id w0))"

section \<open>Deletion\<close>

definition delete_document :: "pystr \<Rightarrow> user \<Rightarrow> store \<Rightarrow> unit http \<times> store" where
  "delete_document doc_id usr s =
     (case find_one (documents s) doc_id of
        None \<Rightarrow> (HTTPException 404, s)
      | Some doc \<Rightarrow>
          if u_role usr \<noteq> str ''admin'' \<and> d_uploaded_by doc \<noteq> u_id usr
          then (HTTPException 403, s)
          else (Response (),
                s\<lparr>documents := delete_one doc_id (documents s),
                  document_chunks := delete_many doc_id (document_chunks s)\<rparr>))"

section \<open>Retrieval\<close>

text \<open>
  \<open>find({}).to_list(10000)\<close>: at most the first 10000 chunks. The entries of the
  \<open>results\<close> and \<open>scored_chunks\<close> lists are \<open>scored\<close> records.
\<close>

definition find_chunks :: "store \<Rightarrow> chunk list" where
  "find_chunks s = take 10000 (document_chunks s)"

record scored =
  sc_document_id :: pystr
  sc_text :: pystr
  sc_score :: rat

record search_result =
  sr_document_id :: pystr
  sr_filename :: pystr
  sr_chunk_text :: pystr
  sr_score :: rat

text \<open>The first loop of \<open>semantic_search\<close>.\<close>

fun score_matches :: "pylib \<Rightarrow> pystr \<Rightarrow> chunk list \<Rightarrow> scored list \<Rightarrow> scored list" where
  "score_matches L query [] results = results"
| "score_matches L query (chunk # chunks) results =
     (if c_text chunk \<noteq> [] then
        (let score = calculate_text_similarity L query (c_text chunk)
         in if score > 0
            then score_matches L query chunks
                   (results @ [\<lparr>sc_document_id = c_document_id chunk, sc_text = c_text chunk,
                                 sc_score = score\<rparr>])
            else score_matches L query chunks results)
      else score_matches L query chunks results)"

text \<open>
  \<open>list.sort(key=score, reverse=True)\<close>: a stable sort by descending score. A stable
  sort has one result, which the insertion sort \<open>sort_key\<close> computes.
\<close>

definition sort_by_score :: "scored list \<Rightarrow> scored list" where
  "sort_by_score results = sort_key (\<lambda>r. - sc_score r) results"

text \<open>The second loop of \<open>semantic_search\<close>: the join against the documents.\<close>

fun attach_filenames ::
  "document list \<Rightarrow> scored list \<Rightarrow> search_result list \<Rightarrow> search_result list" where
  "attach_filenames docs [] final_results = final_results"
| "attach_filenames docs (result # results) final_results =
     (case find_one docs (sc_document_id result) of
        None \<Rightarrow> attach_filenames docs results final_results
      | Some doc \<Rightarrow>
          attach_filenames docs results
            (final_results @ [\<lparr>sr_document_id = sc_document_id result,
                               sr_filename = d_filename doc,
                               sr_chunk_text = py_prefix (sc_text result) 500,
                               sr_score = sc_score result\<rparr>]))"

definition semantic_search :: "pylib \<Rightarrow> store \<Rightarrow> pystr \<Rightarrow> int \<Rightarrow> search_result list" where
  "semantic_search L s query limit =
     (let chunks = find_chunks s;
          results = score_matches L query chunks [];
          results = sort_by_score results;
          results = py_prefix results limit
      in attach_filenames (documents s) results [])"

text \<open>
  Search in the words of its specification: the stored chunks that score above 0, in
  descending order of score with ties in corpus order, truncated to the limit, each
  with the filename of its document and its text capped to 500 characters.
\<close>

definition search_spec :: "pylib \<Rightarrow> store \<Rightarrow> pystr \<Rightarrow> int \<Rightarrow> search_result list" where
  "search_spec L s query limit =
     map (\<lambda>c. \<lparr>sr_document_id = c_document_id c,
               sr_filename = (case find_one (documents s) (c_document_id c) of
                                None \<Rightarrow> [] | Some doc \<Rightarrow> d_filename doc),
               sr_chunk_text = take 500 (c_text c),
               sr_score = calculate_text_similarity L query (c_text c)\<rparr>)
       (take (nat limit)
          (sort_key (\<lambda>c. - calculate_text_similarity L query (c_text c))
             (filter (\<lambda>c. calculate_text_similarity L query (c_text c) > 0)
                (document_chunks s))))"

section \<open>Chat retrieval\<close>

text \<open>The scoring loop of \<open>rag_chat\<close>: every chunk with a text, whatever its score.\<close>

fun score_all :: "pylib \<Rightarrow> pystr \<Rightarrow> chunk list \<Rightarrow> scored list \<Rightarrow> scored list" where
  "score_all L message [] scored_chunks = scored_chunks"
| "score_all L message (chunk # chunks) scored_chunks =
     (if c_text chunk \<noteq> [] then
        score_all L message chunks
          (scored_chunks @ [\<lparr>sc_document_id = c_document_id chunk, sc_text = c_text chunk,
                              sc_score = calculate_text_similarity L message (c_text chunk)\<rparr>])
      else score_all L message chunks scored_chunks)"

definition top_chunks :: "pylib \<Rightarrow> store \<Rightarrow> pystr \<Rightarrow> scored list" where
  "top_chunks L s message = take 5 (sort_by_score (score_all L message (find_chunks s) []))"

definition no_relevant_documents :: pystr where
  "no_relevant_documents = str ''No relevant documents found in the knowledge base.''"

definition excerpt :: "scored \<Rightarrow> pystr" where
  "excerpt c = str ''[Document excerpt]: '' @ sc_text c"

definition chat_context :: "pylib \<Rightarrow> store \<Rightarrow> pystr \<Rightarrow> pystr" where
  "chat_context L s message =
     (let context = py_join [10, 10]
                      (map excerpt (filter (\<lambda>c. sc_score c > 0) (top_chunks L s message)))
      in if context = [] then no_relevant_documents else context)"

record source =
  so_document_id :: pystr
  so_filename :: pystr
  so_relevance :: rat

fun collect_sources ::
  "pylib \<Rightarrow> document list \<Rightarrow> scored list \<Rightarrow> source list \<Rightarrow> source list" where
  "collect_sources L docs [] sources = sources"
| "collect_sources L docs (chunk # chunks) sources =
     (if sc_score chunk > 0 then
        (case find_one docs (sc_document_id chunk) of
           None \<Rightarrow> collect_sources L docs chunks sources
         | Some doc \<Rightarrow>
             collect_sources L docs chunks
               (sources @ [\<lparr>so_document_id = sc_document_id chunk, so_filename = d_filename doc,
                             so_relevance = round3 L (sc_score chunk)\<rparr>]))
      else collect_sources L docs chunks sources)"

definition chat_sources :: "pylib \<Rightarrow> store \<Rightarrow> pystr \<Rightarrow> source list" where
  "chat_sources L s message =
     collect_sources L (documents s) (take 3 (top_chunks L s message)) []"

text \<open>
  \<open>rag_chat\<close>: the language model is a parameter, given the context and the message
  (\<open>None\<close> when the call raises, which the handler turns into a 500). The chat history
  and the query log are not part of the state.
\<close>

record chat_response =
  cr_response :: pystr
  cr_sources :: "source list"

definition rag_chat ::
  "pylib \<Rightarrow> (pystr \<Rightarrow> pystr \<Rightarrow> pystr option) \<Rightarrow> store \<Rightarrow> pystr \<Rightarrow> chat_response http" where
  "rag_chat L llm s message =
     (let context = chat_context L s message
      in case llm context message of
           None \<Rightarrow> HTTPException 500
         | Some assistant_message \<Rightarrow>
             Response \<lparr>cr_response = assistant_message,
                       cr_sources = chat_sources L s message\<rparr>)"

section \<open>Auxiliary notions for the statements\<close>

text \<open>
  The entry that the scoring loops build for a chunk, the search result and the chat
  source built for a scored entry (\<open>None\<close> when its document is not found), and a chunk
  with its stored keywords erased.
\<close>

definition scored_of :: "pylib \<Rightarrow> pystr \<Rightarrow> chunk \<Rightarrow> scored" where
  "scored_of L query c =
     \<lparr>sc_document_id = c_document_id c, sc_text = c_text c,
      sc_score = calculate_text_similarity L query (c_text c)\<rparr>"

definition result_of :: "document list \<Rightarrow> scored \<Rightarrow> search_result option" where
  "result_of docs r =
     (case find_one docs (sc_document_id r) of
        None \<Rightarrow> None
      | Some doc \<Rightarrow>
          Some \<lparr>sr_document_id = sc_document_id r, sr_filename = d_filename doc,
                sr_chunk_text = py_prefix (sc_text r) 500, sr_score = sc_score r\<rparr>)"

definition source_of :: "pylib \<Rightarrow> document list \<Rightarrow> scored \<Rightarrow> source option" where
  "source_of L docs c =
     (if sc_score c > 0 then
        (case find_one docs (sc_document_id c) of
           None \<Rightarrow> None
         | Some doc \<Rightarrow>
             Some \<lparr>so_document_id = sc_document_id c, so_filename = d_filename doc,
                   so_relevance = round3 L (sc_score c)\<rparr>)
      else None)"

definition erase_keywords :: "chunk \<Rightarrow> chunk" where
  "erase_keywords c = c\<lparr>c_keywords := []\<rparr>"

section \<open>Example values\<close>

text \<open>
  Four one-chunk documents of two users, and a corpus of 10001 chunks whose last chunk
  is the only one that shares a keyword with the query \<open>knowledge\<close>.
\<close>

definition ascii_bytes :: "string \<Rightarrow> pybytes" where
  "ascii_bytes s = map of_nat (str s)"

definition example_document :: "string \<Rightarrow> string \<Rightarrow> string \<Rightarrow> string \<Rightarrow> document" where
  "example_document i name owner content =
     \<lparr>d_id = str i, d_filename = str name, d_content_type = plain_mime,
      d_size = length content, d_status = Indexed, d_uploaded_by = str owner,
      d_chunk_count = 1, d_content = ascii_bytes content\<rparr>"

definition example_chunk :: "string \<Rightarrow> string \<Rightarrow> string list \<Rightarrow> chunk" where
  "example_chunk i content keywords =
     \<lparr>c_document_id = str i, c_chunk_index = 0, c_text = str content,
      c_keywords = map str keywords\<rparr>"

definition example_documents :: "document list" where
  "example_documents =
     [example_document ''d1'' ''features.txt'' ''u1'' ''enterprise knowledge features'',
      example_document ''d2'' ''base.txt'' ''u1'' ''knowledge base'',
      example_document ''d3'' ''zebra.txt'' ''u2'' ''zebra crossing'',
      example_document ''d4'' ''graph.txt'' ''u2'' ''knowledge graph'']"

definition example_store :: store where
  "example_store =
     \<lparr>documents = example_documents,
      document_chunks =
        [example_chunk ''d1'' ''enterprise knowledge features''
           [''enterprise'', ''knowledge'', ''features''],
         example_chunk ''d2'' ''knowledge base'' [''knowledge'', ''base''],
         example_chunk ''d3'' ''zebra crossing'' [''zebra'', ''crossing''],
         example_chunk ''d4'' ''knowledge graph'' [''knowledge'', ''graph'']]\<rparr>"

definition large_store :: store where
  "large_store =
     \<lparr>documents = example_documents,
      document_chunks =
        replicate 10000 (example_chunk ''d3'' ''zebra crossing'' [''zebra'', ''crossing''])
          @ [example_chunk ''d2'' ''knowledge base'' [''knowledge'', ''base'']]\<rparr>"

definition example_admin :: user where
  "example_admin = \<lparr>u_id = str ''u0'', u_email = str ''admin@example.org'', u_role = str ''admin''\<rparr>"

definition example_user :: user where
  "example_user = \<lparr>u_id = str ''u1'', u_email = str ''user@example.org'', u_role = str ''user''\<rparr>"
section \<open>The chunker: termination and windows\<close>

lemma chunk_loop_run:
  assumes step: "overlap < chunk_size"
  shows "n - k = m \<Longrightarrow> k \<le> n \<Longrightarrow> n = window_count txt chunk_size overlap \<Longrightarrow>
     chunk_loop txt chunk_size overlap (window_start chunk_size overlap k) acc
       = Some (acc @ emitted (map (window txt chunk_size overlap) [k..<n]))"
proof (induction m arbitrary: k acc)
  case 0
  then have kn: "k = n" by simp
  have "\<not> window_start chunk_size overlap k < int (length txt)"
  proof -
    let ?d = "chunk_size - overlap"
    have d: "0 < ?d" using step by simp
    have "int (length txt) \<le> ((int (length txt) + ?d - 1) div ?d) * ?d"
      using d by (smt (verit) pos_mod_bound div_mult_mod_eq mult.commute)
    moreover have "0 \<le> (int (length txt) + ?d - 1) div ?d"
      using d by (simp add: pos_imp_zdiv_nonneg_iff)
    ultimately show ?thesis
      using 0 kn by (simp add: window_start_def window_count_def)
  qed
  then show ?case using kn
    by (subst chunk_loop.simps) (simp add: emitted_def)
next
  case (Suc m)
  then have kn: "k < n" by simp
  let ?d = "chunk_size - overlap"
  have d: "0 < ?d" using step by simp
  have lt: "window_start chunk_size overlap k < int (length txt)"
  proof -
    have "int k < (int (length txt) + ?d - 1) div ?d"
      using kn Suc.prems by (simp add: window_count_def)
    then have "int k + 1 \<le> (int (length txt) + ?d - 1) div ?d" by simp
    then have "(int k + 1) * ?d \<le> ((int (length txt) + ?d - 1) div ?d) * ?d"
      using d by (simp add: mult_right_mono)
    also have "\<dots> \<le> int (length txt) + ?d - 1"
      using d by (smt (verit) pos_mod_sign div_mult_mod_eq mult.commute)
    finally show ?thesis by (simp add: window_start_def algebra_simps)
  qed
  have nxt: "window_start chunk_size overlap k + chunk_size - overlap
      = window_start chunk_size overlap (Suc k)"
    by (simp add: window_start_def algebra_simps)
  have up: "[k..<n] = k # [Suc k..<n]" using kn by (simp add: upt_conv_Cons)
  have IH: "\<And>acc. chunk_loop txt chunk_size overlap (window_start chunk_size overlap (Suc k)) acc
       = Some (acc @ emitted (map (window txt chunk_size overlap) [Suc k..<n]))"
    using Suc.IH[of "Suc k"] Suc.prems kn by simp
  show ?case
    apply (subst chunk_loop.simps)
    using lt apply (simp add: Let_def nxt IH up emitted_def window_def)
    done
qed

lemma dropWhile_all_iff:
  "(\<forall>x \<in> set (dropWhile P s). P x) \<longleftrightarrow> (\<forall>x \<in> set s. P x)"
  by (induction s) auto

lemma py_strip_Nil_iff: "py_strip s = [] \<longleftrightarrow> (\<forall>c \<in> set s. py_isspace c)"
  by (simp add: py_strip_def dropWhile_eq_Nil_conv dropWhile_all_iff)

lemma window_count_1200:
  "length txt = 1200 \<Longrightarrow> window_count txt 1000 200 = 2"
  by (simp add: window_count_def)

lemma windows_1200:
  "length txt = 1200 \<Longrightarrow>
     map (window txt 1000 200) [0..<window_count txt 1000 200] = [take 1000 txt, drop 800 txt]"
  by (simp add: window_count_1200 window_def window_start_def py_slice_def py_clamp_def
      upt_rec[of 0] upt_rec[of 1] numeral_2_eq_2)

lemma window_start_mono:
  "overlap < chunk_size \<Longrightarrow> j < k \<Longrightarrow>
     window_start chunk_size overlap j < window_start chunk_size overlap k"
  by (simp add: window_start_def)

text \<open>
  Claim C3. When \<open>overlap < chunk_size\<close>, \<open>chunk_text\<close> returns for every text, and
  what it returns are the trimmed, non-empty windows in order: window \<open>k\<close> starts at
  \<open>k * (chunk_size - overlap)\<close>, so the starts are 0, the step, twice the step and so
  on, strictly increasing; a window that is all whitespace is dropped and the cursor
  moves on. The empty text gives the empty list. A text of 1200 characters has with
  size 1000 and overlap 200 exactly the two windows 0 to 1000 and 800 to 1200, and when
  its first and its last character are not whitespace both are emitted, trimmed, as
  exactly two chunks.
\<close>

theorem chunk_text_windows:
  assumes "overlap < chunk_size"
  shows "chunk_text txt chunk_size overlap
           = Some (emitted (map (window txt chunk_size overlap)
                      [0..<window_count txt chunk_size overlap]))
       \<and> window_start chunk_size overlap 0 = 0
       \<and> (\<forall>k. window_start chunk_size overlap (Suc k)
               = window_start chunk_size overlap k + (chunk_size - overlap))
       \<and> (\<forall>j k. j < k \<longrightarrow>
               window_start chunk_size overlap j < window_start chunk_size overlap k)
       \<and> chunk_text [] chunk_size overlap = Some []
       \<and> (length txt = 1200 \<longrightarrow>
            map (window txt 1000 200) [0..<window_count txt 1000 200]
              = [take 1000 txt, drop 800 txt])
       \<and> (length txt = 1200 \<and> \<not> py_isspace (hd txt) \<and> \<not> py_isspace (last txt) \<longrightarrow>
            chunk_text txt 1000 200 = Some [py_strip (take 1000 txt), py_strip (drop 800 txt)]
            \<and> py_strip (take 1000 txt) \<noteq> [] \<and> py_strip (drop 800 txt) \<noteq> [])"
proof -
  have closed: "chunk_text t cs ov
           = Some (emitted (map (window t cs ov) [0..<window_count t cs ov]))"
    if "ov < cs" for t cs ov
  proof (cases "t = []")
    case True
    then show ?thesis using that by (simp add: chunk_text_def window_count_def emitted_def)
  next
    case False
    have "chunk_loop t cs ov (window_start cs ov 0) []
        = Some ([] @ emitted (map (window t cs ov) [0..<window_count t cs ov]))"
      using that by (intro chunk_loop_run) simp_all
    then show ?thesis using False by (simp add: chunk_text_def window_start_def)
  qed
  have scen: "chunk_text txt 1000 200 = Some [py_strip (take 1000 txt), py_strip (drop 800 txt)]
            \<and> py_strip (take 1000 txt) \<noteq> [] \<and> py_strip (drop 800 txt) \<noteq> []"
    if len: "length txt = 1200" and h: "\<not> py_isspace (hd txt)" and l: "\<not> py_isspace (last txt)"
  proof -
    have ne: "txt \<noteq> []" using len by auto
    have "hd txt \<in> set (take 1000 txt)" using ne len by (cases "txt") auto
    then have a: "py_strip (take 1000 txt) \<noteq> []" using h by (auto simp: py_strip_Nil_iff)
    have "drop 800 txt \<noteq> []" using len by simp
    then have "last (drop 800 txt) \<in> set (drop 800 txt)" by (rule last_in_set)
    moreover have "last (drop 800 txt) = last txt" using len by (simp add: last_drop)
    ultimately have b: "py_strip (drop 800 txt) \<noteq> []" using l by (auto simp: py_strip_Nil_iff)
    show ?thesis using closed[of 200 1000 "txt"] a b by (simp add: windows_1200[OF len] emitted_def)
  qed
  have c1: "chunk_text txt chunk_size overlap
           = Some (emitted (map (window txt chunk_size overlap)
                      [0..<window_count txt chunk_size overlap]))"
    by (rule closed[OF assms])
  have c2: "window_start chunk_size overlap 0 = 0"
    by (simp add: window_start_def)
  have c3: "\<forall>k. window_start chunk_size overlap (Suc k)
               = window_start chunk_size overlap k + (chunk_size - overlap)"
    by (simp add: window_start_def algebra_simps)
  have c4: "\<forall>j k. j < k \<longrightarrow>
               window_start chunk_size overlap j < window_start chunk_size overlap k"
    using window_start_mono[OF assms] by blast
  have c5: "chunk_text [] chunk_size overlap = Some []"
    by (simp add: chunk_text_def)
  have c6: "length txt = 1200 \<longrightarrow>
            map (window txt 1000 200) [0..<window_count txt 1000 200]
              = [take 1000 txt, drop 800 txt]"
    using windows_1200 by blast
  show ?thesis
    using c1 c2 c3 c4 c5 c6 scen by (intro conjI impI) blast+
qed

lemma py_strip_replicate:
  "py_strip (replicate n c) = (if py_isspace c then [] else replicate n c)"
  by (simp add: py_strip_def)

text \<open>
  A text of 1200 letters gives the chunks of 1000 and 400 letters; a short text with
  size 10 and overlap 3 gives three windows.
\<close>

theorem chunk_text_windows_witness:
  "(200::int) < 1000
   \<and> chunk_text (replicate 1200 97) 1000 200 = Some [replicate 1000 97, replicate 400 97]
   \<and> chunk_text (str ''hello world foo'') 10 3
       = Some [str ''hello worl'', str ''orld foo'', str ''o'']"
proof -
  have a: "(200::int) < 1000" by simp
  have b: "(3::int) < 10" by simp
  let ?t = "replicate 1200 (97::nat)"
  let ?u = "str ''hello world foo''"
  have p: "\<not> py_isspace 97" by (simp add: py_isspace_def)
  have h: "hd ?t = 97" by (simp add: hd_replicate)
  have l: "last ?t = 97" by (simp add: last_replicate)
  have "length ?t = 1200 \<and> \<not> py_isspace (hd ?t) \<and> \<not> py_isspace (last ?t) \<longrightarrow>
      chunk_text ?t 1000 200 = Some [py_strip (take 1000 ?t), py_strip (drop 800 ?t)]
      \<and> py_strip (take 1000 ?t) \<noteq> [] \<and> py_strip (drop 800 ?t) \<noteq> []"
    using chunk_text_windows[OF a, of ?t] by blast
  then have first: "chunk_text ?t 1000 200 = Some [replicate 1000 97, replicate 400 97]"
    using p h l by (simp add: py_strip_replicate)
  have "chunk_text ?u 10 3 = Some (emitted (map (window ?u 10 3) [0..<window_count ?u 10 3]))"
    using chunk_text_windows[OF b, of ?u] by (rule conjunct1)
  moreover have "emitted (map (window ?u 10 3) [0..<window_count ?u 10 3])
      = [str ''hello worl'', str ''orld foo'', str ''o'']"
    by (simp add: str_def window_count_def window_def window_start_def py_slice_def
        py_clamp_def emitted_def py_strip_def py_isspace_def
        upt_rec[of 0] upt_rec[of 1] upt_rec[of 2] numeral_3_eq_3)
  ultimately have second: "chunk_text ?u 10 3
      = Some [str ''hello worl'', str ''orld foo'', str ''o'']"
    by (simp only:)
  show ?thesis
    using a first second by (intro conjI)
qed

text \<open>
  Without the condition on the first and last character the scenario fails: a text of
  1200 spaces has the same two windows, both are dropped, and no chunk is returned.
\<close>

theorem chunk_text_blank_counterexample:
  "length (replicate 1200 (32::nat)) = 1200 \<and> chunk_text (replicate 1200 32) 1000 200 = Some []"
proof -
  have "chunk_loop (replicate 1200 32) 1000 200 (window_start 1000 200 0) []
        = Some ([] @ emitted (map (window (replicate 1200 32) 1000 200) [0..<window_count (replicate 1200 32) 1000 200]))"
    by (rule chunk_loop_run) simp_all
  then show ?thesis
    by (simp add: chunk_text_def window_start_def windows_1200 emitted_def py_strip_replicate py_isspace_def)
qed
section \<open>The keyword extractor: what the scanner returns\<close>

text \<open>
  The scanner is compared with a description by runs: a match attempt succeeds exactly at
  the start of a maximal run of word characters that consists of at least three ASCII
  letters, and it takes the whole run.
\<close>

lemma letter_is_word: "ascii_letter c \<Longrightarrow> is_word L c"
  by (auto simp: ascii_letter_def is_word_def py_isalnum_def ascii_alnum_def)

lemma next_char_drop: "next_char (drop k s) = (if k < length s then Some (s ! k) else None)"
  by (simp add: next_char_def hd_drop_conv_nth split: list.split)
     (metis Cons_nth_drop_Suc drop_eq_Nil linorder_not_less list.inject list.distinct(1))

lemma takeWhile_letters_nth:
  "k < length (takeWhile ascii_letter s) \<Longrightarrow> ascii_letter (s ! k)"
  by (metis nth_mem set_takeWhileD takeWhile_nth)

lemma match_here_eq:
  "match_here L prev s =
     (let n = length (takeWhile ascii_letter s)
      in if \<not> word_at L prev \<and> 3 \<le> n \<and> (n < length s \<longrightarrow> \<not> is_word L (s ! n))
         then Some n else None)"
proof -
  define n where "n = length (takeWhile ascii_letter s)"
  have nle: "n \<le> length s" unfolding n_def by (rule length_takeWhile_le)
  let ?P = "\<lambda>k. boundary L (Some (s ! (k - 1))) (next_char (drop k s))"
  have inner: "\<not> ?P k" if "3 \<le> k" "k < n" for k
  proof -
    have "ascii_letter (s ! (k - 1))" "ascii_letter (s ! k)"
      using that by (auto simp: n_def intro: takeWhile_letters_nth)
    then show ?thesis using that nle
      by (simp add: boundary_def word_at_def next_char_drop letter_is_word)
  qed
  have last_letter: "ascii_letter (s ! (n - 1))" if "3 \<le> n"
    using that by (auto simp: n_def intro: takeWhile_letters_nth)
  have atn: "?P n \<longleftrightarrow> (n < length s \<longrightarrow> \<not> is_word L (s ! n))" if "3 \<le> n"
    using last_letter[OF that]
    by (auto simp: boundary_def word_at_def next_char_drop letter_is_word)
  have findn: "find ?P (rev [3..<Suc n])
      = (if 3 \<le> n \<and> (n < length s \<longrightarrow> \<not> is_word L (s ! n)) then Some n else None)"
  proof (cases "3 \<le> n")
    case False
    then show ?thesis by simp
  next
    case True
    then have r: "rev [3..<Suc n] = n # rev [3..<n]" by simp
    show ?thesis
    proof (cases "?P n")
      case True
      then show ?thesis using atn[OF \<open>3 \<le> n\<close>] \<open>3 \<le> n\<close> by (simp add: r)
    next
      case False
      have "find ?P (rev [3..<n]) = None"
        using inner by (auto simp: find_None_iff)
      then show ?thesis using False atn[OF \<open>3 \<le> n\<close>] \<open>3 \<le> n\<close> by (simp add: r)
    qed
  qed
  have first: "boundary L prev (next_char s) \<longleftrightarrow> \<not> word_at L prev" if "3 \<le> n"
  proof -
    have "0 < length s" using that nle by linarith
    moreover have "ascii_letter (s ! 0)" using that by (auto simp: n_def intro: takeWhile_letters_nth)
    ultimately show ?thesis
      by (cases s) (auto simp: boundary_def word_at_def next_char_def letter_is_word)
  qed
  show ?thesis
    unfolding match_here_def Let_def n_def[symmetric]
    using findn first by (cases "3 \<le> n") auto
qed

lemma word_runs_skip: "\<not> is_word L c \<Longrightarrow> word_runs L (c # cs) = word_runs L cs"
  by simp

lemma word_runs_run:
  "w \<noteq> [] \<Longrightarrow> list_all (is_word L) w \<Longrightarrow> rest = [] \<or> \<not> is_word L (hd rest) \<Longrightarrow>
     word_runs L (w @ rest) = w # word_runs L rest"
proof (induction w)
  case Nil
  then show ?case by simp
next
  case (Cons c w)
  show ?case
  proof (cases "w = []")
    case True
    then show ?thesis using Cons.prems by (auto split: list.split)
  next
    case False
    then have "word_runs L (w @ rest) = w # word_runs L rest"
      using Cons by simp
    moreover have "is_word L (hd (w @ rest))" using False Cons.prems by (cases w) auto
    ultimately show ?thesis using Cons.prems False by simp
  qed
qed

lemma takeWhile_stronger:
  "(\<And>x. P x \<Longrightarrow> Q x) \<Longrightarrow> list_all P (takeWhile Q s) \<Longrightarrow> takeWhile P s = takeWhile Q s"
  by (induction s) (auto split: if_splits)

lemma dropWhile_fix: "s = [] \<or> \<not> P (hd s) \<Longrightarrow> dropWhile P s = s"
  by (cases s) auto

lemma findall_from_runs:
  "findall_from L prev s
     = filter letter_word (word_runs L (if word_at L prev then dropWhile (is_word L) s else s))"
proof (induction L prev s rule: findall_from.induct)
  case (1 L prev s)
  define n where "n = length (takeWhile ascii_letter s)"
  define ok where "ok \<longleftrightarrow> \<not> word_at L prev \<and> 3 \<le> n \<and> (n < length s \<longrightarrow> \<not> is_word L (s ! n))"
  have m: "match_here L prev s = (if ok then Some n else None)"
    by (simp add: match_here_eq n_def ok_def Let_def)
  show ?case
  proof (cases ok)
    case True
    then have np: "\<not> word_at L prev" and n3: "3 \<le> n"
      and comp: "n < length s \<longrightarrow> \<not> is_word L (s ! n)"
      by (auto simp: ok_def)
    have tk: "take n s = takeWhile ascii_letter s"
      unfolding n_def by (rule takeWhile_eq_take[symmetric])
    have letters: "list_all ascii_letter (take n s)"
      unfolding tk by (auto simp: list_all_iff dest: set_takeWhileD)
    then have words: "list_all (is_word L) (take n s)"
      by (auto simp: list_all_iff letter_is_word)
    have len: "length (take n s) = n"
      using length_takeWhile_le[of ascii_letter s] by (simp add: n_def)
    have ne: "take n s \<noteq> []" using len n3 by auto
    have rest: "drop n s = [] \<or> \<not> is_word L (hd (drop n s))"
      using comp by (cases "n < length s") (simp_all add: hd_drop_conv_nth)
    have "word_runs L (take n s @ drop n s) = take n s # word_runs L (drop n s)"
      by (rule word_runs_run[OF ne words rest])
    then have runs: "word_runs L s = take n s # word_runs L (drop n s)" by simp
    have lw: "letter_word (take n s)"
      using letters len n3 by (simp add: letter_word_def)
    have "n - 1 < n" using n3 by simp
    then have "ascii_letter (s ! (n - 1))"
      unfolding n_def by (rule takeWhile_letters_nth)
    then have wp: "word_at L (Some (s ! (n - 1)))"
      by (simp add: word_at_def letter_is_word)
    have IH: "findall_from L (Some (s ! (n - 1))) (drop n s)
        = filter letter_word (word_runs L (drop n s))"
      using "1.IH"(2)[of n] m True wp dropWhile_fix[of "drop n s" "is_word L", OF rest] by simp
    have "findall_from L prev s = take n s # findall_from L (Some (s ! (n - 1))) (drop n s)"
      by (subst findall_from.simps) (simp add: m True)
    then show ?thesis using IH runs lw np by simp
  next
    case False
    then have mn: "match_here L prev s = None" using m by simp
    have unfold: "findall_from L prev s
        = (case s of [] \<Rightarrow> [] | c # cs \<Rightarrow> findall_from L (Some c) cs)"
      by (subst findall_from.simps) (simp add: mn)
    show ?thesis
    proof (cases s)
      case Nil
      then show ?thesis using unfold by simp
    next
      case (Cons c cs)
      have IH: "findall_from L (Some c) cs
          = filter letter_word (word_runs L (if is_word L c then dropWhile (is_word L) cs else cs))"
        using "1.IH"(1)[OF mn Cons] by (simp add: word_at_def)
      have step: "findall_from L prev s = findall_from L (Some c) cs"
        using unfold Cons by simp
      show ?thesis
      proof (cases "is_word L c")
        case nw: False
        then show ?thesis using step IH Cons by simp
      next
        case w: True
        show ?thesis
        proof (cases "word_at L prev")
          case True
          then show ?thesis using step IH Cons w by simp
        next
          case np: False
          let ?run = "takeWhile (is_word L) s"
          let ?rest = "dropWhile (is_word L) s"
          have ne: "?run \<noteq> []" using Cons w by simp
          have words: "list_all (is_word L) ?run"
            by (auto simp: list_all_iff dest: set_takeWhileD)
          have rest: "?rest = [] \<or> \<not> is_word L (hd ?rest)"
            using hd_dropWhile[of "is_word L" s] by blast
          have "word_runs L (?run @ ?rest) = ?run # word_runs L ?rest"
            by (rule word_runs_run[OF ne words rest])
          then have runs: "word_runs L s = ?run # word_runs L ?rest" by simp
          have nlw: "\<not> letter_word ?run"
          proof
            assume lw: "letter_word ?run"
            then have all: "list_all ascii_letter ?run" and l3: "3 \<le> length ?run"
              by (auto simp: letter_word_def)
            have eq: "takeWhile ascii_letter s = ?run"
              by (rule takeWhile_stronger[OF letter_is_word all])
            then have n_eq: "n = length ?run" by (simp add: n_def)
            have "n < length s \<longrightarrow> \<not> is_word L (s ! n)"
              unfolding n_eq using nth_length_takeWhile[of "is_word L" s] by blast
            then have ok using np l3 n_eq by (simp add: ok_def)
            then show False using False by simp
          qed
          have "?rest = dropWhile (is_word L) cs" using Cons w by simp
          then show ?thesis using step IH runs nlw np w by simp
        qed
      qed
    qed
  qed
qed

lemma get_text_keywords_runs:
  "get_text_keywords L t
     = filter (\<lambda>w. w \<notin> set stop_words) (filter letter_word (word_runs L (py_lower L t)))"
  by (simp add: get_text_keywords_def findall_from_runs word_at_def)

lemma stop_words_codes:
  "stop_words =
     [[116, 104, 101],
      [97, 110, 100],
      [102, 111, 114],
      [97, 114, 101],
      [98, 117, 116],
      [110, 111, 116],
      [121, 111, 117],
      [97, 108, 108],
      [99, 97, 110],
      [104, 97, 100],
      [104, 101, 114],
      [119, 97, 115],
      [111, 110, 101],
      [111, 117, 114],
      [111, 117, 116],
      [104, 97, 115],
      [104, 97, 118, 101],
      [98, 101, 101, 110],
      [102, 114, 111, 109],
      [116, 104, 101, 121],
      [119, 101, 114, 101],
      [98, 101, 101, 110],
      [104, 97, 118, 101],
      [109, 97, 110, 121],
      [115, 111, 109, 101],
      [116, 104, 101, 109],
      [116, 104, 105, 115],
      [116, 104, 97, 116],
      [119, 105, 116, 104],
      [119, 105, 108, 108],
      [119, 111, 117, 108, 100],
      [116, 104, 101, 114, 101],
      [116, 104, 101, 105, 114],
      [119, 104, 97, 116],
      [119, 104, 105, 99, 104],
      [119, 104, 101, 110],
      [119, 104, 101, 114, 101],
      [119, 104, 105, 108, 101],
      [105, 110, 116, 111],
      [109, 111, 114, 101],
      [111, 116, 104, 101, 114],
      [99, 111, 117, 108, 100],
      [115, 104, 111, 117, 108, 100]]"
  by (simp add: stop_words_def str_def)

lemma word_runs_chars: "w \<in> set (word_runs L s) \<Longrightarrow> set w \<subseteq> set s"
proof (induction s arbitrary: w)
  case Nil
  then show ?case by simp
next
  case (Cons c cs)
  show ?case
  proof (cases "is_word L c")
    case False
    then show ?thesis using Cons by auto
  next
    case True
    show ?thesis
    proof (cases "word_runs L cs")
      case Nil
      then show ?thesis using Cons.prems True by auto
    next
      case (Cons r rs)
      have r: "set r \<subseteq> set cs" using Cons.IH[of r] Cons by simp
      have rs: "\<And>v. v \<in> set rs \<Longrightarrow> set v \<subseteq> set cs" using Cons.IH Cons by simp
      show ?thesis
        using Cons.prems True Cons r rs by (auto split: if_splits)
    qed
  qed
qed

lemma ascii_lower_letter:
  "ascii_letter (ascii_lower c) \<Longrightarrow> 97 \<le> ascii_lower c \<and> ascii_lower c \<le> 122"
  by (auto simp: ascii_letter_def ascii_lower_def ascii_upper_def split: if_splits)

lemma keywords_members:
  "w \<in> set (get_text_keywords L t) \<Longrightarrow>
     w \<notin> set stop_words \<and> 3 \<le> length w \<and> list_all ascii_letter w
       \<and> w \<in> set (word_runs L (py_lower L t))"
  by (auto simp: get_text_keywords_runs letter_word_def)

lemma keywords_ascii_lowercase:
  assumes "list_all (\<lambda>c. c < 128) t" and "w \<in> set (get_text_keywords L t)"
  shows "list_all (\<lambda>c. 97 \<le> c \<and> c \<le> 122) w"
proof -
  have low: "py_lower L t = map ascii_lower t" using assms(1) by (simp add: py_lower_def)
  have mem: "w \<in> set (word_runs L (map ascii_lower t))" and letters: "list_all ascii_letter w"
    using keywords_members[OF assms(2)] low by auto
  have "set w \<subseteq> set (map ascii_lower t)" by (rule word_runs_chars[OF mem])
  then have "\<And>c. c \<in> set w \<Longrightarrow> \<exists>d. c = ascii_lower d" by auto
  then show ?thesis
    using letters ascii_lower_letter by (fastforce simp: list_all_iff)
qed

lemma keywords_the_cat_sat:
  "get_text_keywords L (str ''The cat sat'') = [str ''cat'', str ''sat'']"
  by (simp add: get_text_keywords_runs stop_words_codes str_def py_lower_def ascii_lower_def
      ascii_upper_def is_word_def py_isalnum_def ascii_alnum_def ascii_letter_def letter_word_def)

text \<open>
  Claim C4. \<open>get_text_keywords\<close> returns, in order of occurrence, the maximal runs of
  word characters (letters, digits and the underscore) of the lower-cased text that
  consist of ASCII letters only and have at least three of them, without the stop
  words. So no keyword is a stop word or shorter than three characters, every keyword
  is made of ASCII letters, and for an ASCII text of lower-case letters. The keywords
  of "The cat sat" are "cat" and "sat".
\<close>

theorem get_text_keywords_tokens:
  "get_text_keywords L t
     = filter (\<lambda>w. w \<notin> set stop_words) (filter letter_word (word_runs L (py_lower L t)))
   \<and> (\<forall>w \<in> set (get_text_keywords L t).
         w \<notin> set stop_words \<and> 3 \<le> length w \<and> list_all ascii_letter w)
   \<and> (list_all (\<lambda>c. c < 128) t \<longrightarrow>
         (\<forall>w \<in> set (get_text_keywords L t). list_all (\<lambda>c. 97 \<le> c \<and> c \<le> 122) w))
   \<and> get_text_keywords L (str ''The cat sat'') = [str ''cat'', str ''sat'']"
  using get_text_keywords_runs[of L t] keywords_members[of _ L t]
    keywords_ascii_lowercase[of t _ L] keywords_the_cat_sat[of L]
  by (intro conjI ballI impI) blast+

text \<open>An ASCII text with capitals, punctuation and a short word.\<close>

theorem get_text_keywords_tokens_witness:
  "list_all (\<lambda>c. c < 128) (str ''Hello, WORLD of x-ray'')
   \<and> get_text_keywords ascii_lib (str ''Hello, WORLD of x-ray'')
       = [str ''hello'', str ''world'', str ''ray'']
   \<and> list_all (list_all (\<lambda>c. 97 \<le> c \<and> c \<le> 122))
       (get_text_keywords ascii_lib (str ''Hello, WORLD of x-ray''))"
proof -
  let ?t = "str ''Hello, WORLD of x-ray''"
  have a: "list_all (\<lambda>c. c < 128) ?t" by (simp add: str_def)
  have "get_text_keywords ascii_lib ?t
      = filter (\<lambda>w. w \<notin> set stop_words) (filter letter_word (word_runs ascii_lib (py_lower ascii_lib ?t)))"
    using get_text_keywords_tokens[of ascii_lib ?t] by (rule conjunct1)
  moreover have "filter (\<lambda>w. w \<notin> set stop_words) (filter letter_word (word_runs ascii_lib (py_lower ascii_lib ?t)))
      = [str ''hello'', str ''world'', str ''ray'']"
    by (simp add: stop_words_codes str_def py_lower_def ascii_lower_def
      ascii_upper_def is_word_def py_isalnum_def ascii_alnum_def ascii_letter_def letter_word_def)
  ultimately have b: "get_text_keywords ascii_lib ?t = [str ''hello'', str ''world'', str ''ray'']"
    by (simp only:)
  have "\<forall>w \<in> set (get_text_keywords ascii_lib ?t). list_all (\<lambda>c. 97 \<le> c \<and> c \<le> 122) w"
    using get_text_keywords_tokens[of ascii_lib ?t] a by blast
  then have c: "list_all (list_all (\<lambda>c. 97 \<le> c \<and> c \<le> 122)) (get_text_keywords ascii_lib ?t)"
    by (simp add: list_all_iff)
  show ?thesis using a b c by (intro conjI)
qed

text \<open>
  A run of letters that touches a digit is not a keyword: in "abc123" the letters
  "abc" are a maximal run of ASCII letters of length three, and the scanner returns
  nothing, because no word boundary follows them.
\<close>

theorem get_text_keywords_digits_counterexample:
  "get_text_keywords ascii_lib (str ''abc123'') = []
   \<and> keywords_spec ascii_lib (str ''abc123'') = [str ''abc'']"
  by (simp add: get_text_keywords_runs keywords_spec_def stop_words_codes str_def py_lower_def
      ascii_lower_def ascii_upper_def is_word_def py_isalnum_def ascii_alnum_def ascii_letter_def
      letter_word_def)
section \<open>Similarity of two texts\<close>

lemma similarity_eq:
  "calculate_text_similarity L a b =
     (if set (get_text_keywords L a) = {} \<or> set (get_text_keywords L b) = {} then 0
      else of_nat (card (set (get_text_keywords L a) \<inter> set (get_text_keywords L b)))
           / of_nat (card (set (get_text_keywords L a) \<union> set (get_text_keywords L b))))"
  by (simp add: calculate_text_similarity_def Let_def)

lemma jaccard_bounds:
  assumes "finite A" and "finite B"
  shows "0 \<le> (of_nat (card (A \<inter> B)) :: rat) / of_nat (card (A \<union> B))"
    and "(of_nat (card (A \<inter> B)) :: rat) / of_nat (card (A \<union> B)) \<le> 1"
proof -
  show "0 \<le> (of_nat (card (A \<inter> B)) :: rat) / of_nat (card (A \<union> B))" by simp
  have "card (A \<inter> B) \<le> card (A \<union> B)"
    using assms by (intro card_mono) auto
  then have "(of_nat (card (A \<inter> B)) :: rat) \<le> of_nat (card (A \<union> B))" by simp
  then show "(of_nat (card (A \<inter> B)) :: rat) / of_nat (card (A \<union> B)) \<le> 1"
    by (cases "card (A \<union> B) = 0") (simp_all add: divide_le_eq_1)
qed

lemma card_inter_lists:
  "card (set xs \<inter> set ys) = length (remdups (filter (\<lambda>x. x \<in> set ys) xs))"
proof -
  have "set xs \<inter> set ys = set (filter (\<lambda>x. x \<in> set ys) xs)" by auto
  then show ?thesis by (simp add: length_remdups_card_conv)
qed

lemma card_union_lists: "card (set xs \<union> set ys) = length (remdups (xs @ ys))"
  by (simp add: length_remdups_card_conv)

text \<open>
  Claim C2. The similarity of two texts is the Jaccard index of their keyword sets, and
  0 when either set is empty. It is symmetric, it is 1 when the two keyword sets are
  equal and not empty (so on identical inputs with a keyword), it is 0 when a keyword
  set is empty, and it lies between 0 and 1.
\<close>

theorem calculate_text_similarity_jaccard:
  "calculate_text_similarity L a b =
     (if set (get_text_keywords L a) = {} \<or> set (get_text_keywords L b) = {} then 0
      else of_nat (card (set (get_text_keywords L a) \<inter> set (get_text_keywords L b)))
           / of_nat (card (set (get_text_keywords L a) \<union> set (get_text_keywords L b))))
   \<and> calculate_text_similarity L a b = calculate_text_similarity L b a
   \<and> (set (get_text_keywords L a) = set (get_text_keywords L b)
        \<and> set (get_text_keywords L a) \<noteq> {} \<longrightarrow> calculate_text_similarity L a b = 1)
   \<and> (set (get_text_keywords L a) \<noteq> {} \<longrightarrow> calculate_text_similarity L a a = 1)
   \<and> (set (get_text_keywords L a) = {} \<or> set (get_text_keywords L b) = {}
        \<longrightarrow> calculate_text_similarity L a b = 0)
   \<and> 0 \<le> calculate_text_similarity L a b
   \<and> calculate_text_similarity L a b \<le> 1"
proof -
  let ?A = "set (get_text_keywords L a)" and ?B = "set (get_text_keywords L b)"
  have sym: "calculate_text_similarity L a b = calculate_text_similarity L b a"
    by (simp add: similarity_eq Int_commute Un_commute disj_commute)
  have one: "calculate_text_similarity L a b = 1" if "?A = ?B" "?A \<noteq> {}"
  proof -
    have "card ?A \<noteq> 0" using that by simp
    then show ?thesis using that by (simp add: similarity_eq)
  qed
  have refl: "calculate_text_similarity L a a = 1" if "?A \<noteq> {}"
  proof -
    have "card ?A \<noteq> 0" using that by simp
    then show ?thesis using that by (simp add: similarity_eq)
  qed
  have zero: "calculate_text_similarity L a b = 0" if "?A = {} \<or> ?B = {}"
    using that by (auto simp: similarity_eq)
  have lo: "0 \<le> calculate_text_similarity L a b"
    using jaccard_bounds(1)[of ?A ?B] by (simp add: similarity_eq)
  have hi: "calculate_text_similarity L a b \<le> 1"
    using jaccard_bounds(2)[of ?A ?B] by (simp add: similarity_eq)
  show ?thesis
    using similarity_eq[of L a b] sym one refl zero lo hi by (intro conjI impI) blast+
qed

lemma keywords_query:
  "get_text_keywords L (str ''enterprise knowledge features'')
     = [str ''enterprise'', str ''knowledge'', str ''features'']"
  by (simp add: get_text_keywords_runs stop_words_codes str_def py_lower_def ascii_lower_def
      ascii_upper_def is_word_def py_isalnum_def ascii_alnum_def ascii_letter_def letter_word_def)

lemma keywords_chunk:
  "get_text_keywords L (str ''Enterprise Knowledge Management System features include search'')
     = [str ''enterprise'', str ''knowledge'', str ''management'', str ''system'',
        str ''features'', str ''include'', str ''search'']"
  by (simp add: get_text_keywords_runs stop_words_codes str_def py_lower_def ascii_lower_def
      ascii_upper_def is_word_def py_isalnum_def ascii_alnum_def ascii_letter_def letter_word_def)

lemma keywords_stop_only:
  "get_text_keywords L (str ''the and for'') = []"
  by (simp add: get_text_keywords_runs stop_words_codes str_def py_lower_def ascii_lower_def
      ascii_upper_def is_word_def py_isalnum_def ascii_alnum_def ascii_letter_def letter_word_def)

text \<open>
  The scenario of the specification: the query shares three of the seven keywords of
  the chunk. A text of stop words has no keyword and scores 0.
\<close>

theorem calculate_text_similarity_jaccard_witness:
  "set (get_text_keywords ascii_lib (str ''enterprise knowledge features'')) \<noteq> {}
   \<and> calculate_text_similarity ascii_lib (str ''enterprise knowledge features'')
        (str ''enterprise knowledge features'') = 1
   \<and> calculate_text_similarity ascii_lib (str ''enterprise knowledge features'')
        (str ''Enterprise Knowledge Management System features include search'') = 3 / 7
   \<and> set (get_text_keywords ascii_lib (str ''the and for'')) = {}
   \<and> calculate_text_similarity ascii_lib (str ''the and for'')
        (str ''enterprise knowledge features'') = 0"
proof -
  let ?q = "str ''enterprise knowledge features''"
  let ?c = "str ''Enterprise Knowledge Management System features include search''"
  let ?s = "str ''the and for''"
  have ne: "set (get_text_keywords ascii_lib ?q) \<noteq> {}"
    by (simp add: keywords_query)
  have em: "set (get_text_keywords ascii_lib ?s) = {}"
    by (simp add: keywords_stop_only)
  have one: "calculate_text_similarity ascii_lib ?q ?q = 1"
    using calculate_text_similarity_jaccard[of ascii_lib ?q ?q] ne by blast
  have zero: "calculate_text_similarity ascii_lib ?s ?q = 0"
    using calculate_text_similarity_jaccard[of ascii_lib ?s ?q] em by blast
  have "calculate_text_similarity ascii_lib ?q ?c =
     (if set (get_text_keywords ascii_lib ?q) = {} \<or> set (get_text_keywords ascii_lib ?c) = {} then 0
      else of_nat (card (set (get_text_keywords ascii_lib ?q) \<inter> set (get_text_keywords ascii_lib ?c)))
           / of_nat (card (set (get_text_keywords ascii_lib ?q) \<union> set (get_text_keywords ascii_lib ?c))))"
    using calculate_text_similarity_jaccard[of ascii_lib ?q ?c] by (rule conjunct1)
  then have "calculate_text_similarity ascii_lib ?q ?c =
     (if set [str ''enterprise'', str ''knowledge'', str ''features''] = {}
          \<or> set [str ''enterprise'', str ''knowledge'', str ''management'', str ''system'',
                  str ''features'', str ''include'', str ''search''] = {} then 0
      else of_nat (card (set [str ''enterprise'', str ''knowledge'', str ''features'']
                      \<inter> set [str ''enterprise'', str ''knowledge'', str ''management'',
                               str ''system'', str ''features'', str ''include'', str ''search'']))
           / of_nat (card (set [str ''enterprise'', str ''knowledge'', str ''features'']
                      \<union> set [str ''enterprise'', str ''knowledge'', str ''management'',
                               str ''system'', str ''features'', str ''include'', str ''search''])))"
    by (simp only: keywords_query keywords_chunk)
  then have frac: "calculate_text_similarity ascii_lib ?q ?c = 3 / 7"
    unfolding card_inter_lists card_union_lists by (simp add: str_def)
  show ?thesis using ne one frac em zero by (intro conjI)
qed

section \<open>Extraction of plain text\<close>

lemma utf8_decode_no_error:
  "65533 \<notin> set (utf8_decode Replace bs) \<Longrightarrow> utf8_decode Ignore bs = utf8_decode Replace bs"
proof (induction "length bs" arbitrary: bs rule: less_induct)
  case less
  show ?case
  proof (cases bs)
    case Nil
    then show ?thesis by simp
  next
    case (Cons b bs')
    let ?rest = "drop (snd (decode_step b bs') - 1) bs'"
    have len: "length ?rest < length bs"
      using Cons by simp
    from less.prems Cons have no: "65533 \<notin> set (utf8_decode Replace ?rest)"
      by simp
    have rest: "utf8_decode Ignore ?rest = utf8_decode Replace ?rest"
      using less.hyps[OF len no] .
    show ?thesis
    proof (cases "fst (decode_step b bs')")
      case None
      with less.prems Cons show ?thesis by (simp add: on_error_def)
    next
      case (Some cp)
      with rest Cons show ?thesis by simp
    qed
  qed
qed

lemma py_strip_prefix:
  "py_strip s = take (length (py_strip s)) (dropWhile py_isspace s)"
proof -
  let ?ys = "dropWhile py_isspace s"
  have "py_strip s = rev (drop (length (takeWhile py_isspace (rev ?ys))) (rev ?ys))"
    by (simp add: py_strip_def dropWhile_eq_drop[symmetric])
  also have "\<dots> = take (length ?ys - length (takeWhile py_isspace (rev ?ys))) ?ys"
    by (simp add: rev_drop)
  finally have eq: "py_strip s = take (length ?ys - length (takeWhile py_isspace (rev ?ys))) ?ys" .
  then have "length (py_strip s) = length ?ys - length (takeWhile py_isspace (rev ?ys))"
    by simp
  with eq show ?thesis by simp
qed

lemma py_strip_hd:
  assumes "py_strip s \<noteq> []"
  shows "\<not> py_isspace (hd (py_strip s))"
proof -
  have ne: "dropWhile py_isspace s \<noteq> []"
    using assms by (cases "dropWhile py_isspace s = []") (simp_all add: py_strip_def)
  have "hd (py_strip s) = hd (dropWhile py_isspace s)"
    using assms py_strip_prefix[of s] by (metis hd_take length_greater_0_conv)
  then show ?thesis using hd_dropWhile[OF ne] by simp
qed

lemma py_strip_last:
  assumes "py_strip s \<noteq> []"
  shows "\<not> py_isspace (last (py_strip s))"
proof -
  let ?zs = "dropWhile py_isspace (rev (dropWhile py_isspace s))"
  have ne: "?zs \<noteq> []" using assms by (simp add: py_strip_def)
  have "last (py_strip s) = hd ?zs"
    using ne by (simp add: py_strip_def last_rev)
  then show ?thesis using hd_dropWhile[OF ne] by simp
qed

lemma dropWhile_hd_id: "xs \<noteq> [] \<Longrightarrow> \<not> P (hd xs) \<Longrightarrow> dropWhile P xs = xs"
  by (cases xs) auto

lemma py_strip_idem: "py_strip (py_strip s) = py_strip s"
proof (cases "py_strip s = []")
  case True
  have "py_strip [] = []" by (simp add: py_strip_def)
  with True show ?thesis by simp
next
  case False
  let ?r = "py_strip s"
  have h: "\<not> py_isspace (hd ?r)" by (rule py_strip_hd[OF False])
  have l: "\<not> py_isspace (last ?r)" by (rule py_strip_last[OF False])
  have a: "dropWhile py_isspace ?r = ?r"
    using False h by (rule dropWhile_hd_id)
  have "hd (rev ?r) = last ?r" using False by (simp add: hd_rev)
  then have b: "dropWhile py_isspace (rev ?r) = rev ?r"
    using False l dropWhile_hd_id[of "rev ?r" py_isspace] by simp
  show ?thesis
    unfolding py_strip_def[of ?r] a b by simp
qed

lemma extract_text_plain_eq:
  assumes "content_type \<noteq> pdf_mime" "content_type \<noteq> docx_mime"
    "content_type \<noteq> xlsx_mime" "content_type \<noteq> pptx_mime"
    "\<not> endswith filename (str ''.pdf'')" "\<not> endswith filename (str ''.docx'')"
    "\<not> endswith filename (str ''.xlsx'')" "\<not> endswith filename (str ''.pptx'')"
  shows "extract_text_from_file P file_content content_type filename
           = py_strip (decode file_content Ignore)"
  using assms by (simp add: extract_text_from_file_def)

lemma decode_invalid_ignore: "decode [0x61, 0xFF, 0x62] Ignore = str ''ab''"
  by (simp add: decode_def decode_step_def on_error_def str_def)

lemma decode_invalid_replace: "decode [0x61, 0xFF, 0x62] Replace = [97, 65533, 98]"
  by (simp add: decode_def decode_step_def on_error_def)

lemma decode_padded: "decode [0x20, 0x68, 0x69, 0x0A] Ignore = [32, 104, 105, 10]"
  by (simp add: decode_def decode_step_def)

lemma decode_padded_replace: "decode [0x20, 0x68, 0x69, 0x0A] Replace = [32, 104, 105, 10]"
  by (simp add: decode_def decode_step_def)

lemma mime_distinct:
  "plain_mime \<noteq> pdf_mime" "plain_mime \<noteq> docx_mime" "plain_mime \<noteq> xlsx_mime"
  "plain_mime \<noteq> pptx_mime"
  by (simp_all add: plain_mime_def pdf_mime_def docx_mime_def xlsx_mime_def pptx_mime_def str_def)

lemma notes_txt_suffix:
  "\<not> endswith (str ''notes.txt'') (str ''.pdf'')"
  "\<not> endswith (str ''notes.txt'') (str ''.docx'')"
  "\<not> endswith (str ''notes.txt'') (str ''.xlsx'')"
  "\<not> endswith (str ''notes.txt'') (str ''.pptx'')"
  by (simp_all add: endswith_def str_def)

text \<open>
  Claim C7. When the declared content type is none of the four structured types and the
  file name ends in none of \<open>.pdf\<close>, \<open>.docx\<close>, \<open>.xlsx\<close>, \<open>.pptx\<close> (the dispatch accepts
  either), the extractor returns the UTF-8 decoding of the bytes under
  \<open>errors='ignore'\<close>, which drops every invalid sequence, trimmed of surrounding
  whitespace. Whenever the decoding with the replacement character holds no U+FFFD, the
  two decodings agree. The result is trimmed: trimming it again changes nothing, and a
  result that is not empty neither starts nor ends with whitespace. The function is
  total: it has a value for every input.
\<close>

theorem extract_text_plain:
  assumes "content_type \<noteq> pdf_mime" and "content_type \<noteq> docx_mime"
    and "content_type \<noteq> xlsx_mime" and "content_type \<noteq> pptx_mime"
    and "\<not> endswith filename (str ''.pdf'')" and "\<not> endswith filename (str ''.docx'')"
    and "\<not> endswith filename (str ''.xlsx'')" and "\<not> endswith filename (str ''.pptx'')"
  shows "extract_text_from_file P file_content content_type filename
           = py_strip (decode file_content Ignore)
       \<and> (65533 \<notin> set (decode file_content Replace) \<longrightarrow>
            extract_text_from_file P file_content content_type filename
              = py_strip (decode file_content Replace))
       \<and> py_strip (extract_text_from_file P file_content content_type filename)
           = extract_text_from_file P file_content content_type filename
       \<and> (extract_text_from_file P file_content content_type filename \<noteq> [] \<longrightarrow>
            \<not> py_isspace (hd (extract_text_from_file P file_content content_type filename))
            \<and> \<not> py_isspace (last (extract_text_from_file P file_content content_type filename)))"
proof -
  let ?r = "extract_text_from_file P file_content content_type filename"
  have eq: "?r = py_strip (decode file_content Ignore)"
    using assms by (rule extract_text_plain_eq)
  have same: "?r = py_strip (decode file_content Replace)"
    if "65533 \<notin> set (decode file_content Replace)"
  proof -
    have "decode file_content Ignore = decode file_content Replace"
      using that unfolding decode_def by (rule utf8_decode_no_error)
    with eq show ?thesis by simp
  qed
  have idem: "py_strip ?r = ?r"
    unfolding eq by (rule py_strip_idem)
  have ends: "\<not> py_isspace (hd ?r) \<and> \<not> py_isspace (last ?r)" if "?r \<noteq> []"
    using that py_strip_hd[of "decode file_content Ignore"]
      py_strip_last[of "decode file_content Ignore"] unfolding eq by simp
  show ?thesis
    using eq same idem ends by (intro conjI impI) blast+
qed

text \<open>
  A plain-text upload with surrounding whitespace: the text comes back trimmed, and
  equal to the decoding with the replacement character, which has no error to mark.
\<close>

theorem extract_text_plain_witness:
  "plain_mime \<noteq> pdf_mime \<and> plain_mime \<noteq> docx_mime \<and> plain_mime \<noteq> xlsx_mime
   \<and> plain_mime \<noteq> pptx_mime
   \<and> \<not> endswith (str ''notes.txt'') (str ''.pdf'')
   \<and> \<not> endswith (str ''notes.txt'') (str ''.docx'')
   \<and> \<not> endswith (str ''notes.txt'') (str ''.xlsx'')
   \<and> \<not> endswith (str ''notes.txt'') (str ''.pptx'')
   \<and> 65533 \<notin> set (decode [0x20, 0x68, 0x69, 0x0A] Replace)
   \<and> extract_text_from_file no_parsers [0x20, 0x68, 0x69, 0x0A] plain_mime (str ''notes.txt'')
       = str ''hi''
   \<and> py_strip (decode [0x20, 0x68, 0x69, 0x0A] Replace) = str ''hi''"
proof -
  let ?b = "[0x20, 0x68, 0x69, 0x0A] :: pybytes"
  note t = extract_text_plain[OF mime_distinct notes_txt_suffix, of no_parsers ?b]
  have "extract_text_from_file no_parsers ?b plain_mime (str ''notes.txt'')
          = py_strip (decode ?b Ignore)"
    using t by (rule conjunct1)
  then have r: "extract_text_from_file no_parsers ?b plain_mime (str ''notes.txt'') = str ''hi''"
    by (simp add: decode_padded py_strip_def py_isspace_def str_def)
  have n: "65533 \<notin> set (decode ?b Replace)"
    by (simp add: decode_padded_replace)
  have s: "py_strip (decode ?b Replace) = str ''hi''"
    by (simp add: decode_padded_replace py_strip_def py_isspace_def str_def)
  show ?thesis
    using mime_distinct notes_txt_suffix n r s by (intro conjI)
qed

text \<open>
  Claim C7 as stated fails. The byte FF is invalid in UTF-8: the extractor drops it,
  where the decoding with the replacement character has U+FFFD in its place. And a file
  declared \<open>text/plain\<close> whose name ends in \<open>.pdf\<close> goes to the PDF parser, so that its
  text is not the decoding of its bytes (here the parser rejects the bytes and the
  result is empty).
\<close>

theorem extract_text_invalid_byte_counterexample:
  "extract_text_from_file no_parsers [0x61, 0xFF, 0x62] plain_mime (str ''notes.txt'') = str ''ab''
   \<and> py_strip (decode [0x61, 0xFF, 0x62] Replace) = [97, 65533, 98]
   \<and> extract_text_from_file no_parsers [0x68, 0x69] plain_mime (str ''notes.pdf'') = []
   \<and> py_strip (decode [0x68, 0x69] Replace) = str ''hi''"
proof -
  have a: "extract_text_from_file no_parsers [0x61, 0xFF, 0x62] plain_mime (str ''notes.txt'')
             = py_strip (decode [0x61, 0xFF, 0x62] Ignore)"
    using mime_distinct notes_txt_suffix by (rule extract_text_plain_eq)
  have a': "py_strip (decode [0x61, 0xFF, 0x62] Ignore) = str ''ab''"
    by (simp add: decode_invalid_ignore) (simp add: py_strip_def py_isspace_def str_def)
  have b: "py_strip (decode [0x61, 0xFF, 0x62] Replace) = [97, 65533, 98]"
    by (simp add: decode_invalid_replace py_strip_def py_isspace_def)
  have suffix: "endswith (str ''notes.pdf'') (str ''.pdf'')"
    by (simp add: endswith_def str_def)
  have c: "extract_text_from_file no_parsers [0x68, 0x69] plain_mime (str ''notes.pdf'') = []"
    using suffix by (simp add: extract_text_from_file_def no_parsers_def py_strip_def)
  have d: "py_strip (decode [0x68, 0x69] Replace) = str ''hi''"
    by (simp add: decode_def decode_step_def py_strip_def py_isspace_def str_def)
  show ?thesis
    using a a' b c d by (intro conjI) simp_all
qed


end
